theory Spec2Isabelle
  imports Complex_Main "HOL-Library.Monad_Syntax" "HOL-Library.Product_Lexorder"
begin

section \<open>Common Python notions\<close>





text \<open>
  The slice \<open>xs[i:]\<close>: a negative start counts from the end and is clamped at the
  front, a start beyond the end gives the empty list.
\<close>

definition py_slice_from :: "int \<Rightarrow> 'a list \<Rightarrow> 'a list" where
  "py_slice_from i xs =
     (if i < 0 then drop (nat (int (length xs) + i)) xs else drop (nat i) xs)"

datatype py_error = ZeroDivisionError | KeyError | TypeError | ValueError | AttributeError

section \<open>Microloop exit logic (routing_helpers.py)\<close>










section \<open>Stall tracker (progress_tracker.py)\<close>

record ProgressTracker =
  error_signatures :: "string list"
  stall_threshold :: int

definition is_stalled :: "ProgressTracker \<Rightarrow> bool" where
  "is_stalled tr =
     (if int (length (error_signatures tr)) < stall_threshold tr then False
      else let recent = py_slice_from (- stall_threshold tr) (error_signatures tr)
           in card (set recent) = 1)"

text \<open>
  \<open>get_velocity\<close> returns the float nearest to the quotient of two integers; the
  model returns the quotient itself, and the error Python raises when the window
  is empty.
\<close>

definition get_velocity :: "ProgressTracker \<Rightarrow> py_error + rat" where
  "get_velocity tr =
     (if length (error_signatures tr) < 2 then Inr 1
      else let window = min (int (length (error_signatures tr))) (stall_threshold tr);
               recent = py_slice_from (- window) (error_signatures tr);
               unique = card (set recent)
           in if length recent = 0 then Inl ZeroDivisionError
              else Inr (of_nat unique / of_nat (length recent)))"

text \<open>
  The stall tracker as the specification words it: the last \<open>n\<close> signatures,
  "all equal", and the velocity over the window of the last \<open>min(len, t)\<close>
  signatures.
\<close>

definition last_n :: "nat \<Rightarrow> 'a list \<Rightarrow> 'a list" where
  "last_n n xs = drop (length xs - n) xs"

definition all_equal :: "'a list \<Rightarrow> bool" where
  "all_equal ys = (\<forall>x \<in> set ys. \<forall>y \<in> set ys. x = y)"

definition spec_is_stalled :: "ProgressTracker \<Rightarrow> bool" where
  "spec_is_stalled tr =
     (stall_threshold tr \<le> int (length (error_signatures tr))
      \<and> all_equal (last_n (nat (stall_threshold tr)) (error_signatures tr)))"

definition spec_velocity :: "ProgressTracker \<Rightarrow> rat" where
  "spec_velocity tr =
     (if length (error_signatures tr) < 2 then 1
      else let w = min (length (error_signatures tr)) (nat (stall_threshold tr))
           in of_nat (card (set (last_n w (error_signatures tr)))) / of_nat w)"

section \<open>Boundary scanner (boundary_enforcement.py)\<close>

text \<open>The substring test \<open>pat in s\<close> of Python strings.\<close>

fun starts_with :: "string \<Rightarrow> string \<Rightarrow> bool" where
  "starts_with [] s = True"
| "starts_with (p # ps) [] = False"
| "starts_with (p # ps) (c # cs) = (p = c \<and> starts_with ps cs)"

fun py_in :: "string \<Rightarrow> string \<Rightarrow> bool" where
  "py_in pat [] = (pat = [])"
| "py_in pat (c # cs) = (starts_with pat (c # cs) \<or> py_in pat cs)"

datatype ViolationSeverity = INFO | WARNING | ERROR | CRITICAL_SEVERITY

datatype ViolationType =
  WRITE_OUTSIDE_WORKSPACE | REAL_REPO_MODIFICATION | UNAUTHORIZED_PUSH
  | MAIN_BRANCH_MUTATION | FORCE_OPERATION | SECRET_EXPOSURE














section \<open>Values read from JSON\<close>

text \<open>
  The values \<open>json.loads\<close> produces and dictionaries of type \<open>Dict[str, Any]\<close>
  hold: \<open>None\<close>, booleans, integers, finite floats (each is a rational
  number), strings, lists and dictionaries (in insertion order).
\<close>

datatype json =
  JNull | JBool bool | JInt int | JFloat rat | JStr string
  | JArr "json list" | JObj "(string \<times> json) list"

definition dict_get :: "(string \<times> json) list \<Rightarrow> string \<Rightarrow> json \<Rightarrow> json" where
  "dict_get d k dflt = (case map_of d k of None \<Rightarrow> dflt | Some v \<Rightarrow> v)"

section \<open>Normalized tool calls (types/tool_call.py)\<close>

record NormalizedToolCall =
  tool_name :: string
  tool_input :: "(string \<times> json) list"
  tool_output :: "string option"
  success :: bool
  duration_ms :: int
  blocked :: bool
  blocked_reason :: "string option"
  source :: string
  timestamp :: "string option"

text \<open>\<open>__post_init__\<close>: a missing timestamp is set from the clock, read as \<open>now\<close>.\<close>

definition post_init :: "string \<Rightarrow> NormalizedToolCall \<Rightarrow> NormalizedToolCall" where
  "post_init now c = (if timestamp c = None then c\<lparr>timestamp := Some now\<rparr> else c)"

definition opt_str_json :: "string option \<Rightarrow> json" where
  "opt_str_json s = (case s of None \<Rightarrow> JNull | Some t \<Rightarrow> JStr t)"

definition to_dict :: "NormalizedToolCall \<Rightarrow> (string \<times> json) list" where
  "to_dict c =
     [(''tool_name'', JStr (tool_name c)),
      (''tool_input'', JObj (tool_input c)),
      (''success'', JBool (success c)),
      (''duration_ms'', JInt (duration_ms c)),
      (''source'', JStr (source c)),
      (''timestamp'', opt_str_json (timestamp c))]
     @ (case tool_output c of None \<Rightarrow> [] | Some out \<Rightarrow> [(''tool_output'', JStr out)])
     @ (if blocked c
        then (''blocked'', JBool True)
             # (case blocked_reason c of
                  None \<Rightarrow> []
                | Some r \<Rightarrow> if r \<noteq> [] then [(''blocked_reason'', JStr r)] else [])
        else [])"

text \<open>
  \<open>from_dict\<close> passes the dictionary's entries to the constructor unchecked. The
  model reads each entry at the type the dataclass declares for the field and
  has no result (\<open>None\<close>) for a dictionary holding a value of another type.
\<close>

definition as_str :: "json \<Rightarrow> string option" where
  "as_str v = (case v of JStr s \<Rightarrow> Some s | _ \<Rightarrow> None)"

definition as_opt_str :: "json \<Rightarrow> string option option" where
  "as_opt_str v = (case v of JStr s \<Rightarrow> Some (Some s) | JNull \<Rightarrow> Some None | _ \<Rightarrow> None)"

definition as_bool :: "json \<Rightarrow> bool option" where
  "as_bool v = (case v of JBool b \<Rightarrow> Some b | _ \<Rightarrow> None)"

definition as_int :: "json \<Rightarrow> int option" where
  "as_int v = (case v of JInt i \<Rightarrow> Some i | _ \<Rightarrow> None)"

definition as_dict :: "json \<Rightarrow> (string \<times> json) list option" where
  "as_dict v = (case v of JObj kvs \<Rightarrow> Some kvs | _ \<Rightarrow> None)"

definition from_dict :: "string \<Rightarrow> (string \<times> json) list \<Rightarrow> NormalizedToolCall option" where
  "from_dict now data =
     do {
       name \<leftarrow> as_str (dict_get data ''tool_name'' (JStr ''unknown''));
       input \<leftarrow> as_dict (dict_get data ''tool_input'' (JObj []));
       output \<leftarrow> as_opt_str (dict_get data ''tool_output'' JNull);
       succ \<leftarrow> as_bool (dict_get data ''success'' (JBool True));
       dur \<leftarrow> as_int (dict_get data ''duration_ms'' (JInt 0));
       blk \<leftarrow> as_bool (dict_get data ''blocked'' (JBool False));
       blk_reason \<leftarrow> as_opt_str (dict_get data ''blocked_reason'' JNull);
       src \<leftarrow> as_str (dict_get data ''source'' (JStr ''unknown''));
       ts \<leftarrow> as_opt_str (dict_get data ''timestamp'' JNull);
       Some (post_init now
         \<lparr>tool_name = name, tool_input = input, tool_output = output, success = succ,
          duration_ms = dur, blocked = blk, blocked_reason = blk_reason, source = src,
          timestamp = ts\<rparr>)
     }"

section \<open>Utility flow candidates (stepwise/routing/utility_candidates.py)\<close>

definition UTILITY_SOURCE :: string where
  "UTILITY_SOURCE = ''utility_flow_detector''"

definition INJECT_PREFIX :: string where
  "INJECT_PREFIX = ''inject_flow:''"

text \<open>
  Modelled from the spec: the result of trigger detection and the metadata of a
  utility flow are declared in \<open>swarm/runtime/utility_flow_injection\<close>, which is
  not among the sources. Detection "returns \<open>{triggered, trigger_type, flow_id,
  reason, priority, evidence: {k:v}}\<close>"; the registry maps a trigger type to flow
  metadata holding, among others, \<open>flow_id\<close>, \<open>node_ids\<close> and \<open>first_node_id\<close>.
  The evidence values are of any type \<open>'v\<close>.
\<close>

record 'v TriggerResult =
  triggered :: bool
  trigger_type :: string
  flow_id :: "string option"
  trigger_reason :: string
  trigger_priority :: int
  evidence :: "(string \<times> 'v) list"

record UtilityFlowMetadata =
  meta_flow_id :: string
  injection_trigger :: string
  node_ids :: "string list"
  first_node_id :: string

text \<open>The fields \<open>get_utility_flow_candidates\<close> sets on a \<open>RoutingCandidate\<close>.\<close>

record RoutingCandidate =
  candidate_id :: string
  action :: string
  target_node :: string
  candidate_reason :: string
  candidate_priority :: int
  candidate_source :: string
  evidence_pointers :: "string list"
  is_default :: bool

text \<open>
  A step result is a dictionary, an object with a \<open>to_dict\<close> method (given by
  what the method returns), or any other object (given by its attributes).
\<close>

datatype 'd step_result = IsDict 'd | HasToDict 'd | OtherObject 'd

definition step_result_attrs :: "string list" where
  "step_result_attrs =
     [''status'', ''output'', ''error'', ''duration_ms'', ''step_id'', ''artifacts'',
      ''can_further_iteration_help'']"

fun step_result_to_dict :: "(string \<times> 'a) list step_result \<Rightarrow> (string \<times> 'a) list" where
  "step_result_to_dict (IsDict d) = d"
| "step_result_to_dict (HasToDict d) = d"
| "step_result_to_dict (OtherObject attrs) =
     concat (map (\<lambda>attr. case map_of attrs attr of None \<Rightarrow> [] | Some v \<Rightarrow> [(attr, v)])
                 step_result_attrs)"

text \<open>
  \<open>strict\<close> is the reading of the environment flag, \<open>detector\<close> gives the
  \<open>check_triggers\<close> of the detector cached for a repository root, and \<open>fmt\<close> is
  the string an evidence value is formatted to inside an f-string.
\<close>

definition get_utility_flow_candidates ::
  "('v \<Rightarrow> string) \<Rightarrow> bool
   \<Rightarrow> ('root \<Rightarrow> (string \<times> 'a) list \<Rightarrow> 'state \<Rightarrow> 'git option \<Rightarrow> 'v TriggerResult)
   \<Rightarrow> (string \<times> 'a) list step_result \<Rightarrow> 'state \<Rightarrow> 'git option \<Rightarrow> 'root option
   \<Rightarrow> py_error + RoutingCandidate list" where
  "get_utility_flow_candidates fmt strict detector step_res run_state git repo_root =
     (case repo_root of
        None \<Rightarrow> if strict then Inl ValueError else Inr []
      | Some repo \<Rightarrow>
          let result_dict = step_result_to_dict step_res;
              trigger_result = detector repo result_dict run_state git
          in Inr (case flow_id trigger_result of
                    None \<Rightarrow> []
                  | Some fid \<Rightarrow>
                      if triggered trigger_result \<and> fid \<noteq> []
                      then [\<lparr>candidate_id = INJECT_PREFIX @ fid,
                             action = ''inject_flow'',
                             target_node = fid,
                             candidate_reason = trigger_reason trigger_result,
                             candidate_priority = trigger_priority trigger_result,
                             candidate_source = UTILITY_SOURCE,
                             evidence_pointers =
                               (''trigger:'' @ trigger_type trigger_result)
                               # map (\<lambda>(key, value). key @ '':'' @ fmt value)
                                     (evidence trigger_result),
                             is_default = False\<rparr>]
                      else []))"

section \<open>Replay of the event log (state_builder.py)\<close>

text \<open>Truth value of a JSON value in a condition.\<close>

fun json_truthy :: "json \<Rightarrow> bool" where
  "json_truthy JNull = False"
| "json_truthy (JBool b) = b"
| "json_truthy (JInt i) = (i \<noteq> 0)"
| "json_truthy (JFloat r) = (r \<noteq> 0)"
| "json_truthy (JStr s) = (s \<noteq> [])"
| "json_truthy (JArr xs) = (xs \<noteq> [])"
| "json_truthy (JObj kvs) = (kvs \<noteq> [])"

text \<open>
  The payload of an event is a dictionary. The model keeps the entries that
  \<open>_apply_step_completed\<close> reads, each present or absent, with the types the
  engine writes them with: the step id is a string, the envelope any JSON value,
  the next step index an integer.
\<close>

record Payload =
  payload_step_id :: "string option"
  envelope :: "json option"
  next_step_index :: "int option"

definition empty_payload :: Payload where
  "empty_payload = \<lparr>payload_step_id = None, envelope = None, next_step_index = None\<rparr>"

record RunEvent =
  event_run_id :: string
  ts :: string
  kind :: string
  event_flow_key :: string
  event_step_id :: "string option"
  payload :: "Payload option"

text \<open>
  Modelled from the spec: \<open>RunState\<close> and its method \<open>mark_node_completed\<close> are
  declared in \<open>swarm/runtime/types\<close>, which is not among the sources. The spec
  lists the fields of a run, with \<open>completed_nodes\<close> a set and
  \<open>handoff_envelopes\<close> a map from step id to envelope, and says that a completed
  step is added to \<open>completed_nodes\<close>.
\<close>

record 'env RunState =
  run_id :: string
  flow_key :: string
  run_status :: string
  current_step_id :: "string option"
  step_index :: int
  completed_nodes :: "string set"
  handoff_envelopes :: "string \<rightharpoonup> 'env"
  state_timestamp :: string

definition mark_node_completed :: "string \<Rightarrow> 'env RunState \<Rightarrow> 'env RunState" where
  "mark_node_completed node_id st = st\<lparr>completed_nodes := insert node_id (completed_nodes st)\<rparr>"

text \<open>\<open>a or b\<close> on optional strings: the first one that is neither \<open>None\<close> nor empty.\<close>

definition str_or :: "string option \<Rightarrow> string option \<Rightarrow> string option" where
  "str_or a b = (case a of Some s \<Rightarrow> if s \<noteq> [] then Some s else b | None \<Rightarrow> b)"

text \<open>
  \<open>handoff_envelope_from_dict\<close> (also of \<open>swarm/runtime/types\<close>) is the parameter
  \<open>parse\<close>: it returns an envelope or raises. Only \<open>KeyError\<close> and \<open>TypeError\<close>
  are caught (and logged); any other exception leaves the handler.
\<close>

definition apply_step_completed ::
  "(json \<Rightarrow> py_error + 'env) \<Rightarrow> 'env RunState \<Rightarrow> RunEvent \<Rightarrow> Payload
   \<Rightarrow> py_error + 'env RunState" where
  "apply_step_completed parse st event pl =
     (case str_or (event_step_id event) (payload_step_id pl) of
        Some sid \<Rightarrow>
          if sid \<noteq> [] then
            let st1 = mark_node_completed sid st;
                stored =
                  (case envelope pl of
                     None \<Rightarrow> Inr st1
                   | Some envelope_data \<Rightarrow>
                       if json_truthy envelope_data then
                         (case parse envelope_data of
                            Inr env \<Rightarrow>
                              Inr (st1\<lparr>handoff_envelopes := (handoff_envelopes st1)(sid \<mapsto> env)\<rparr>)
                          | Inl KeyError \<Rightarrow> Inr st1
                          | Inl TypeError \<Rightarrow> Inr st1
                          | Inl e \<Rightarrow> Inl e)
                       else Inr st1)
            in (case stored of
                  Inl e \<Rightarrow> Inl e
                | Inr st2 \<Rightarrow>
                    (case next_step_index pl of
                       Some n \<Rightarrow> Inr (st2\<lparr>step_index := n\<rparr>)
                     | None \<Rightarrow> Inr st2))
          else Inr st
      | None \<Rightarrow> Inr st)"

text \<open>
  The reducer: it stamps the state with the time of the event and dispatches on
  the kind. \<open>others\<close> stands for the handlers of the other kinds of event.
\<close>

definition apply_event ::
  "(string \<Rightarrow> 'env RunState \<Rightarrow> RunEvent \<Rightarrow> Payload \<Rightarrow> py_error + 'env RunState)
   \<Rightarrow> (json \<Rightarrow> py_error + 'env) \<Rightarrow> 'env RunState \<Rightarrow> RunEvent
   \<Rightarrow> py_error + 'env RunState" where
  "apply_event others parse st event =
     (let pl = (case payload event of None \<Rightarrow> empty_payload | Some p \<Rightarrow> p);
          st0 = st\<lparr>state_timestamp := ts event\<rparr>
      in if kind event = ''step_completed'' then apply_step_completed parse st0 event pl
         else others (kind event) st0 event pl)"

text \<open>An event "carries" the step id it is applied for.\<close>

definition carried_step_id :: "RunEvent \<Rightarrow> string option" where
  "carried_step_id event =
     (case str_or (event_step_id event)
             (payload_step_id (case payload event of None \<Rightarrow> empty_payload | Some p \<Rightarrow> p)) of
        Some sid \<Rightarrow> if sid \<noteq> [] then Some sid else None
      | None \<Rightarrow> None)"

definition event_payload :: "RunEvent \<Rightarrow> Payload" where
  "event_payload event = (case payload event of None \<Rightarrow> empty_payload | Some p \<Rightarrow> p)"

text \<open>The envelope an event stores: present, truthy, and parsed without exception.\<close>

definition parsed_envelope :: "(json \<Rightarrow> py_error + 'env) \<Rightarrow> RunEvent \<Rightarrow> (py_error + 'env) option" where
  "parsed_envelope parse event =
     (case envelope (event_payload event) of
        None \<Rightarrow> None
      | Some d \<Rightarrow> if json_truthy d then Some (parse d) else None)"

section \<open>Checkpoints and resume points (checkpoint_resume.py)\<close>

text \<open>
  \<open>int(s)\<close> on a string, for ASCII input: surrounding whitespace is ignored, a
  sign may come first, and the digits may be grouped by single underscores.
  \<open>None\<close> stands for \<open>ValueError\<close>.
\<close>

definition is_space :: "char \<Rightarrow> bool" where
  "is_space c = (let n = of_char c :: nat in (9 \<le> n \<and> n \<le> 13) \<or> (28 \<le> n \<and> n \<le> 32))"

definition py_strip :: "string \<Rightarrow> string" where
  "py_strip s = rev (dropWhile is_space (rev (dropWhile is_space s)))"






text \<open>The decimal string of an integer, as an f-string writes it.\<close>

fun nat_digits :: "nat \<Rightarrow> string" where
  "nat_digits n =
     (if n < 10 then [char_of (48 + n)] else nat_digits (n div 10) @ [char_of (48 + n mod 10)])"

declare nat_digits.simps [simp del]

definition py_str_int :: "int \<Rightarrow> string" where
  "py_str_int i = (if i < 0 then CHR ''-'' # nat_digits (nat (- i)) else nat_digits (nat i))"













section \<open>Structured output (structured_output.py)\<close>

subsection \<open>Python operations on JSON values\<close>

text \<open>\<open>a == b\<close>: numbers and booleans compare by value, dictionaries regardless of order.\<close>

fun py_eq :: "json \<Rightarrow> json \<Rightarrow> bool"
  and py_eq_list :: "json list \<Rightarrow> json list \<Rightarrow> bool"
  and py_eq_dict :: "(string \<times> json) list \<Rightarrow> (string \<times> json) list \<Rightarrow> bool" where
  "py_eq (JArr xs) b = (case b of JArr ys \<Rightarrow> py_eq_list xs ys | _ \<Rightarrow> False)"
| "py_eq (JObj kvs) b =
     (case b of JObj kws \<Rightarrow> length kvs = length kws \<and> py_eq_dict kvs kws | _ \<Rightarrow> False)"
| "py_eq (JStr s) b = (b = JStr s)"
| "py_eq JNull b = (b = JNull)"
| "py_eq (JBool x) b =
     (case b of JBool y \<Rightarrow> x = y | JInt i \<Rightarrow> (if x then 1 else 0) = i
      | JFloat r \<Rightarrow> (if x then 1 else 0) = r | _ \<Rightarrow> False)"
| "py_eq (JInt x) b =
     (case b of JBool y \<Rightarrow> x = (if y then 1 else 0) | JInt i \<Rightarrow> x = i
      | JFloat r \<Rightarrow> of_int x = r | _ \<Rightarrow> False)"
| "py_eq (JFloat x) b =
     (case b of JBool y \<Rightarrow> x = (if y then 1 else 0) | JInt i \<Rightarrow> x = of_int i
      | JFloat r \<Rightarrow> x = r | _ \<Rightarrow> False)"
| "py_eq_list [] ys = (ys = [])"
| "py_eq_list (x # xs) ys =
     (case ys of [] \<Rightarrow> False | y # ys' \<Rightarrow> py_eq x y \<and> py_eq_list xs ys')"
| "py_eq_dict [] kws = True"
| "py_eq_dict ((k, v) # kvs) kws =
     ((case map_of kws k of None \<Rightarrow> False | Some w \<Rightarrow> py_eq v w) \<and> py_eq_dict kvs kws)"

text \<open>
  \<open>x in c\<close>: membership in a list, key of a dictionary (an unhashable key raises),
  substring of a string; anything else is not iterable.
\<close>

definition py_in_json :: "json \<Rightarrow> json \<Rightarrow> py_error + bool" where
  "py_in_json x c =
     (case c of
        JArr ys \<Rightarrow> Inr (list_ex (py_eq x) ys)
      | JObj kvs \<Rightarrow>
          (case x of
             JStr s \<Rightarrow> Inr (map_of kvs s \<noteq> None)
           | JArr _ \<Rightarrow> Inl TypeError
           | JObj _ \<Rightarrow> Inl TypeError
           | _ \<Rightarrow> Inr False)
      | JStr s \<Rightarrow> (case x of JStr p \<Rightarrow> Inr (py_in p s) | _ \<Rightarrow> Inl TypeError)
      | _ \<Rightarrow> Inl TypeError)"

definition type_name :: "json \<Rightarrow> string" where
  "type_name v =
     (case v of JNull \<Rightarrow> ''NoneType'' | JBool _ \<Rightarrow> ''bool'' | JInt _ \<Rightarrow> ''int''
      | JFloat _ \<Rightarrow> ''float'' | JStr _ \<Rightarrow> ''str'' | JArr _ \<Rightarrow> ''list'' | JObj _ \<Rightarrow> ''dict'')"

text \<open>The value of a number in a comparison (\<open>bool\<close> is a subclass of \<open>int\<close>).\<close>

definition num_of :: "json \<Rightarrow> rat option" where
  "num_of v =
     (case v of JBool b \<Rightarrow> Some (if b then 1 else 0) | JInt i \<Rightarrow> Some (of_int i)
      | JFloat r \<Rightarrow> Some r | _ \<Rightarrow> None)"

text \<open>\<open>d.get(k)\<close> on a value that must be a dictionary to have a \<open>get\<close>.\<close>

definition obj_get :: "json \<Rightarrow> string \<Rightarrow> json \<Rightarrow> py_error + json" where
  "obj_get d k dflt = (case d of JObj kvs \<Rightarrow> Inr (dict_get kvs k dflt) | _ \<Rightarrow> Inl AttributeError)"

subsection \<open>Extraction of JSON from text\<close>

text \<open>
  The inner loop of \<open>_find_json_candidates\<close>, from an opening brace: \<open>n\<close> counts
  the characters read, and the result is the length of the balanced candidate.
\<close>

fun scan_object :: "int \<Rightarrow> bool \<Rightarrow> bool \<Rightarrow> nat \<Rightarrow> string \<Rightarrow> nat option" where
  "scan_object depth in_string escape_next n [] = None"
| "scan_object depth in_string escape_next n (c # cs) =
     (if escape_next then scan_object depth in_string False (Suc n) cs
      else if c = CHR 0x5C then scan_object depth in_string True (Suc n) cs
      else if c = CHR 0x22 then scan_object depth (\<not> in_string) False (Suc n) cs
      else if \<not> in_string then
        (if c = CHR ''{'' then scan_object (depth + 1) in_string False (Suc n) cs
         else if c = CHR ''}'' then
           (if depth - 1 = 0 then Some (Suc n)
            else scan_object (depth - 1) in_string False (Suc n) cs)
         else scan_object depth in_string False (Suc n) cs)
      else scan_object depth in_string False (Suc n) cs)"

text \<open>
  The outer loop: after a candidate of length \<open>n\<close> (at least 1) the scan goes on
  behind it, that is \<open>n - 1\<close> characters behind the brace it started from.
\<close>

fun find_json_candidates :: "string \<Rightarrow> string list" where
  "find_json_candidates [] = []"
| "find_json_candidates (c # cs) =
     (if c = CHR ''{'' then
        (case scan_object 0 False False 0 (c # cs) of
           Some n \<Rightarrow> take n (c # cs) # find_json_candidates (drop (n - 1) cs)
         | None \<Rightarrow> find_json_candidates cs)
      else find_json_candidates cs)"

text \<open>
  The text behind the first occurrence of \<open>pat\<close>, and the text before it.
\<close>

fun after_first :: "string \<Rightarrow> string \<Rightarrow> string option" where
  "after_first pat [] = (if pat = [] then Some [] else None)"
| "after_first pat (c # cs) =
     (if starts_with pat (c # cs) then Some (drop (length pat) (c # cs))
      else after_first pat cs)"

fun before_first :: "string \<Rightarrow> string \<Rightarrow> string option" where
  "before_first pat [] = (if pat = [] then Some [] else None)"
| "before_first pat (c # cs) =
     (if starts_with pat (c # cs) then Some []
      else map_option ((#) c) (before_first pat cs))"

text \<open>
  Group 1 of the first match of \<open>```json\s*([\s\S]*?)\s*```\<close> (and of the same
  pattern without \<open>json\<close>), stripped: the text between the first opening fence
  and the next fence behind it, without the whitespace around it.
\<close>

definition fence_body :: "string \<Rightarrow> string \<Rightarrow> string option" where
  "fence_body opening text =
     (case after_first opening text of
        None \<Rightarrow> None
      | Some rest \<Rightarrow> map_option py_strip (before_first ''```'' rest))"

definition code_markers :: "string list" where
  "code_markers =
     [''def '', ''class '', ''function '', ''import '', ''const '', ''let '', ''var '']"

text \<open>
  \<open>json.loads\<close> is the parameter \<open>loads\<close>: the value parsed, or the message and
  position of the \<open>JSONDecodeError\<close>.
\<close>

fun first_object :: "(string \<Rightarrow> (string \<times> int) + json) \<Rightarrow> string list \<Rightarrow> json option" where
  "first_object loads [] = None"
| "first_object loads (candidate # rest) =
     (case loads candidate of
        Inr (JObj kvs) \<Rightarrow> Some (JObj kvs)
      | _ \<Rightarrow> first_object loads rest)"

definition strategy4 ::
  "(string \<Rightarrow> (string \<times> int) + json) \<Rightarrow> string \<Rightarrow> json option \<times> string option" where
  "strategy4 loads text =
     (if starts_with ''{'' text \<or> starts_with ''['' text then
        (case loads text of
           Inr (JObj kvs) \<Rightarrow> (Some (JObj kvs), None)
         | Inr data \<Rightarrow> (None, Some (''Expected JSON object, got '' @ type_name data))
         | Inl (msg, pos) \<Rightarrow>
             (None, Some (''Invalid JSON: '' @ msg @ '' at position '' @ py_str_int pos)))
      else (None, Some ''No valid JSON found in response''))"

definition strategy3 ::
  "(string \<Rightarrow> (string \<times> int) + json) \<Rightarrow> string \<Rightarrow> json option \<times> string option" where
  "strategy3 loads text =
     (case first_object loads (find_json_candidates text) of
        Some data \<Rightarrow> (Some data, None)
      | None \<Rightarrow> strategy4 loads text)"

definition strategy2 ::
  "(string \<Rightarrow> (string \<times> int) + json) \<Rightarrow> string \<Rightarrow> json option \<times> string option" where
  "strategy2 loads text =
     (case fence_body ''```'' text of
        Some json_str \<Rightarrow>
          if \<not> list_ex (\<lambda>m. starts_with m json_str) code_markers then
            (case loads json_str of
               Inr (JObj kvs) \<Rightarrow> (Some (JObj kvs), None)
             | _ \<Rightarrow> strategy3 loads text)
          else strategy3 loads text
      | None \<Rightarrow> strategy3 loads text)"

definition extract_json_from_text ::
  "(string \<Rightarrow> (string \<times> int) + json) \<Rightarrow> string \<Rightarrow> json option \<times> string option" where
  "extract_json_from_text loads raw =
     (if raw = [] \<or> py_strip raw = [] then (None, Some ''Empty response received'')
      else
        let text = py_strip raw in
        (case fence_body ''```json'' text of
           Some json_str \<Rightarrow>
             (case loads json_str of
                Inr (JObj kvs) \<Rightarrow> (Some (JObj kvs), None)
              | Inr data \<Rightarrow> (None, Some (''Expected JSON object, got '' @ type_name data))
              | Inl _ \<Rightarrow> strategy2 loads text)
         | None \<Rightarrow> strategy2 loads text))"

text \<open>
  The shape of a result of \<open>extract_json_from_text\<close> the claim is about: a
  parsed value that is a JSON object and no message, or no value and a message.
\<close>

definition is_object :: "json \<Rightarrow> bool" where
  "is_object v = (case v of JObj _ \<Rightarrow> True | _ \<Rightarrow> False)"

definition well_shaped :: "json option \<times> string option \<Rightarrow> bool" where
  "well_shaped r =
     (case r of (Some v, e) \<Rightarrow> is_object v \<and> e = None | (None, e) \<Rightarrow> e \<noteq> None)"

subsection \<open>Validation against a schema\<close>

record ValidationError =
  error_path :: string
  error_message :: string
  error_value :: json

definition verr :: "string \<Rightarrow> string \<Rightarrow> json \<Rightarrow> ValidationError" where
  "verr p m v = \<lparr>error_path = p, error_message = m, error_value = v\<rparr>"

definition squote :: "string \<Rightarrow> string" where
  "squote s = [CHR 0x27] @ s @ [CHR 0x27]"

text \<open>
  Two steps that each append errors or raise, one after the other: the first
  exception ends the function.
\<close>

definition seq_errs :: "py_error + 'a list \<Rightarrow> py_error + 'a list \<Rightarrow> py_error + 'a list" where
  "seq_errs a b =
     (case a of Inl e \<Rightarrow> Inl e
      | Inr xs \<Rightarrow> (case b of Inl e \<Rightarrow> Inl e | Inr ys \<Rightarrow> Inr (xs @ ys)))"

text \<open>\<open>for x in v\<close>: the elements of a list, the characters of a string, the keys of a dictionary.\<close>

definition iterate :: "json \<Rightarrow> py_error + json list" where
  "iterate v =
     (case v of JArr xs \<Rightarrow> Inr xs
      | JStr s \<Rightarrow> Inr (map (\<lambda>c. JStr [c]) s)
      | JObj kvs \<Rightarrow> Inr (map (\<lambda>kv. JStr (fst kv)) kvs)
      | _ \<Rightarrow> Inl TypeError)"

text \<open>The keys of \<open>type_map\<close> and the \<open>isinstance\<close> test against the class a key maps to.\<close>

definition type_map_keys :: "string list" where
  "type_map_keys =
     [''string'', ''number'', ''integer'', ''boolean'', ''array'', ''object'', ''null'']"

definition is_instance :: "json \<Rightarrow> string \<Rightarrow> bool" where
  "is_instance v t =
     (if t = ''string'' then (case v of JStr _ \<Rightarrow> True | _ \<Rightarrow> False)
      else if t = ''number'' then
        (case v of JInt _ \<Rightarrow> True | JFloat _ \<Rightarrow> True | JBool _ \<Rightarrow> True | _ \<Rightarrow> False)
      else if t = ''integer'' then (case v of JInt _ \<Rightarrow> True | JBool _ \<Rightarrow> True | _ \<Rightarrow> False)
      else if t = ''boolean'' then (case v of JBool _ \<Rightarrow> True | _ \<Rightarrow> False)
      else if t = ''array'' then (case v of JArr _ \<Rightarrow> True | _ \<Rightarrow> False)
      else if t = ''object'' then (case v of JObj _ \<Rightarrow> True | _ \<Rightarrow> False)
      else if t = ''null'' then v = JNull
      else False)"

text \<open>\<open>isinstance(value, float) and value.is_integer()\<close>.\<close>

definition is_whole_float :: "json \<Rightarrow> bool" where
  "is_whole_float v = (case v of JFloat r \<Rightarrow> r = of_int \<lfloor>r\<rfloor> | _ \<Rightarrow> False)"

text \<open>\<open>t in type_map\<close> followed by the \<open>isinstance\<close> test; a list or dictionary is unhashable.\<close>

definition fails_type :: "json \<Rightarrow> json \<Rightarrow> py_error + bool" where
  "fails_type t v =
     (case t of
        JStr s \<Rightarrow> Inr (s \<in> set type_map_keys \<and> \<not> is_instance v s)
      | JArr _ \<Rightarrow> Inl TypeError
      | JObj _ \<Rightarrow> Inl TypeError
      | _ \<Rightarrow> Inr False)"

definition check_required_field ::
  "(json \<Rightarrow> string) \<Rightarrow> (string \<times> json) list \<Rightarrow> string \<Rightarrow> json
   \<Rightarrow> py_error + ValidationError list" where
  "check_required_field fmt d prefix field_name =
     (case field_name of
        JStr name \<Rightarrow>
          Inr (if map_of d name = None
               then [verr (prefix @ ''.'' @ name)
                      (''Required field '' @ squote name @ '' is missing'') JNull]
               else [])
      | JArr _ \<Rightarrow> Inl TypeError
      | JObj _ \<Rightarrow> Inl TypeError
      | _ \<Rightarrow>
          Inr [verr (prefix @ ''.'' @ fmt field_name)
                 (''Required field '' @ squote (fmt field_name) @ '' is missing'') JNull])"

fun check_required ::
  "(json \<Rightarrow> string) \<Rightarrow> (string \<times> json) list \<Rightarrow> string \<Rightarrow> json list
   \<Rightarrow> py_error + ValidationError list" where
  "check_required fmt d prefix [] = Inr []"
| "check_required fmt d prefix (f # fs) =
     seq_errs (check_required_field fmt d prefix f) (check_required fmt d prefix fs)"

definition null_check ::
  "(json \<Rightarrow> string) \<Rightarrow> (string \<times> json) list \<Rightarrow> string \<Rightarrow> ValidationError list" where
  "null_check fmt ps field_path =
     (let nullable = dict_get ps ''nullable'' (JBool False);
          prop_type = dict_get ps ''type'' JNull
      in if prop_type = JStr ''null'' \<or> json_truthy nullable then []
         else if prop_type \<noteq> JNull
         then [verr field_path
                 (''Value cannot be null (expected type '' @ squote (fmt prop_type) @ '')'')
                 JNull]
         else [])"

definition enum_check ::
  "(json \<Rightarrow> string) \<Rightarrow> (string \<times> json) list \<Rightarrow> json \<Rightarrow> string
   \<Rightarrow> py_error + ValidationError list" where
  "enum_check fmt ps v field_path =
     (case map_of ps ''enum'' of
        None \<Rightarrow> Inr []
      | Some allowed_values \<Rightarrow>
          (case py_in_json v allowed_values of
             Inl e \<Rightarrow> Inl e
           | Inr found \<Rightarrow>
               Inr (if \<not> found
                    then [verr field_path
                            (''Value '' @ squote (fmt v) @ '' not in allowed values: ''
                             @ fmt allowed_values) v]
                    else [])))"

definition type_check ::
  "(json \<Rightarrow> string) \<Rightarrow> (string \<times> json) list \<Rightarrow> json \<Rightarrow> string
   \<Rightarrow> py_error + ValidationError list" where
  "type_check fmt ps v field_path =
     (let expected_type = dict_get ps ''type'' JNull
      in if json_truthy expected_type then
           (case fails_type expected_type v of
              Inl e \<Rightarrow> Inl e
            | Inr failed \<Rightarrow>
                Inr (if failed \<and> \<not> (expected_type = JStr ''integer'' \<and> is_whole_float v)
                     then [verr field_path
                             (''Expected type '' @ squote (fmt expected_type) @ '', got ''
                              @ squote (type_name v)) v]
                     else []))
         else Inr [])"

text \<open>
  A bound of a schema compared with a number: \<open>cmp\<close> is the comparison that
  reports the error; a bound that is not a number raises \<open>TypeError\<close>.
\<close>

definition bound_check ::
  "(rat \<Rightarrow> rat \<Rightarrow> bool) \<Rightarrow> rat \<Rightarrow> json \<Rightarrow> ValidationError \<Rightarrow> py_error + ValidationError list" where
  "bound_check cmp x bound e =
     (if bound = JNull then Inr []
      else (case num_of bound of
              None \<Rightarrow> Inl TypeError
            | Some b \<Rightarrow> Inr (if cmp x b then [e] else [])))"

text \<open>
  \<open>re.match\<close> is the parameter \<open>re_match\<close>: whether the pattern matches at the
  start of the string, or the exception for a pattern that does not compile.
\<close>

definition pattern_check ::
  "(string \<Rightarrow> string \<Rightarrow> py_error + bool) \<Rightarrow> json \<Rightarrow> string \<Rightarrow> ValidationError
   \<Rightarrow> py_error + ValidationError list" where
  "pattern_check re_match pattern s e =
     (case pattern of
        JNull \<Rightarrow> Inr []
      | JStr p \<Rightarrow>
          (case re_match p s of Inl ex \<Rightarrow> Inl ex | Inr m \<Rightarrow> Inr (if \<not> m then [e] else []))
      | _ \<Rightarrow> Inl TypeError)"

definition string_checks ::
  "(json \<Rightarrow> string) \<Rightarrow> (string \<Rightarrow> string \<Rightarrow> py_error + bool) \<Rightarrow> (string \<times> json) list
   \<Rightarrow> json \<Rightarrow> string \<Rightarrow> py_error + ValidationError list" where
  "string_checks fmt re_match ps v field_path =
     (case v of
        JStr s \<Rightarrow>
          if dict_get ps ''type'' JNull = JStr ''string'' then
            (let min_length = dict_get ps ''minLength'' JNull;
                 max_length = dict_get ps ''maxLength'' JNull;
                 pattern = dict_get ps ''pattern'' JNull;
                 n = int (length s)
             in seq_errs
                  (bound_check (<) (of_int n) min_length
                     (verr field_path
                        (''String length '' @ py_str_int n @ '' is less than minimum ''
                         @ fmt min_length) v))
               (seq_errs
                  (bound_check (>) (of_int n) max_length
                     (verr field_path
                        (''String length '' @ py_str_int n @ '' exceeds maximum ''
                         @ fmt max_length) v))
                  (pattern_check re_match pattern s
                     (verr field_path
                        (''String does not match pattern '' @ squote (fmt pattern)) v))))
          else Inr []
      | _ \<Rightarrow> Inr [])"

definition numeric_checks ::
  "(json \<Rightarrow> string) \<Rightarrow> (string \<times> json) list \<Rightarrow> json \<Rightarrow> string
   \<Rightarrow> py_error + ValidationError list" where
  "numeric_checks fmt ps v field_path =
     (let expected_type = dict_get ps ''type'' JNull in
      if expected_type = JStr ''number'' \<or> expected_type = JStr ''integer'' then
        (case num_of v of
           None \<Rightarrow> Inr []
         | Some x \<Rightarrow>
             (let minimum = dict_get ps ''minimum'' JNull;
                  maximum = dict_get ps ''maximum'' JNull;
                  exclusive_minimum = dict_get ps ''exclusiveMinimum'' JNull;
                  exclusive_maximum = dict_get ps ''exclusiveMaximum'' JNull
              in seq_errs
                   (bound_check (<) x minimum
                      (verr field_path
                         (''Value '' @ fmt v @ '' is less than minimum '' @ fmt minimum) v))
                (seq_errs
                   (bound_check (>) x maximum
                      (verr field_path
                         (''Value '' @ fmt v @ '' exceeds maximum '' @ fmt maximum) v))
                (seq_errs
                   (bound_check (\<le>) x exclusive_minimum
                      (verr field_path
                         (''Value '' @ fmt v @ '' must be greater than ''
                          @ fmt exclusive_minimum) v))
                   (bound_check (\<ge>) x exclusive_maximum
                      (verr field_path
                         (''Value '' @ fmt v @ '' must be less than ''
                          @ fmt exclusive_maximum) v))))))
      else Inr [])"

text \<open>The type and enum tests of an array item that is not validated as an object.\<close>

definition item_type_check ::
  "(json \<Rightarrow> string) \<Rightarrow> (string \<times> json) list \<Rightarrow> json \<Rightarrow> string
   \<Rightarrow> py_error + ValidationError list" where
  "item_type_check fmt items item item_path =
     (case map_of items ''type'' of
        None \<Rightarrow> Inr []
      | Some item_type \<Rightarrow>
          (case fails_type item_type item of
             Inl e \<Rightarrow> Inl e
           | Inr failed \<Rightarrow>
               Inr (if failed
                    then [verr item_path
                            (''Expected array item type '' @ squote (fmt item_type) @ '', got ''
                             @ squote (type_name item)) item]
                    else [])))"

definition item_enum_check ::
  "(json \<Rightarrow> string) \<Rightarrow> (string \<times> json) list \<Rightarrow> json \<Rightarrow> string
   \<Rightarrow> py_error + ValidationError list" where
  "item_enum_check fmt items item item_path =
     (case map_of items ''enum'' of
        None \<Rightarrow> Inr []
      | Some allowed \<Rightarrow>
          (case py_in_json item allowed of
             Inl e \<Rightarrow> Inl e
           | Inr found \<Rightarrow>
               Inr (if \<not> found
                    then [verr item_path
                            (''Array item '' @ squote (fmt item) @ '' not in allowed values: ''
                             @ fmt allowed) item]
                    else [])))"

fun validate_against_schema ::
  "(json \<Rightarrow> string) \<Rightarrow> (string \<Rightarrow> string \<Rightarrow> py_error + bool) \<Rightarrow> json \<Rightarrow> json \<Rightarrow> string
   \<Rightarrow> py_error + ValidationError list"
  and validate_fields ::
  "(json \<Rightarrow> string) \<Rightarrow> (string \<Rightarrow> string \<Rightarrow> py_error + bool) \<Rightarrow> (string \<times> json) list
   \<Rightarrow> json \<Rightarrow> string \<Rightarrow> py_error + ValidationError list"
  and validate_items ::
  "(json \<Rightarrow> string) \<Rightarrow> (string \<Rightarrow> string \<Rightarrow> py_error + bool) \<Rightarrow> nat \<Rightarrow> json list
   \<Rightarrow> json \<Rightarrow> string \<Rightarrow> py_error + ValidationError list" where
  "validate_against_schema fmt re_match (JObj d) schema path_prefix =
     (case obj_get schema ''required'' (JArr []) of
        Inl e \<Rightarrow> Inl e
      | Inr required \<Rightarrow>
          (case iterate required of
             Inl e \<Rightarrow> Inl e
           | Inr names \<Rightarrow>
               seq_errs (check_required fmt d path_prefix names)
                 (case obj_get schema ''properties'' (JObj []) of
                    Inl e \<Rightarrow> Inl e
                  | Inr properties \<Rightarrow>
                      validate_fields fmt re_match d properties path_prefix)))"
| "validate_against_schema fmt re_match JNull schema path_prefix =
     Inr [verr path_prefix (''Expected object, got '' @ type_name JNull) JNull]"
| "validate_against_schema fmt re_match (JBool b) schema path_prefix =
     Inr [verr path_prefix (''Expected object, got '' @ type_name (JBool b)) (JBool b)]"
| "validate_against_schema fmt re_match (JInt i) schema path_prefix =
     Inr [verr path_prefix (''Expected object, got '' @ type_name (JInt i)) (JInt i)]"
| "validate_against_schema fmt re_match (JFloat r) schema path_prefix =
     Inr [verr path_prefix (''Expected object, got '' @ type_name (JFloat r)) (JFloat r)]"
| "validate_against_schema fmt re_match (JStr s) schema path_prefix =
     Inr [verr path_prefix (''Expected object, got '' @ type_name (JStr s)) (JStr s)]"
| "validate_against_schema fmt re_match (JArr xs) schema path_prefix =
     Inr [verr path_prefix (''Expected object, got '' @ type_name (JArr xs)) (JArr xs)]"
| "validate_fields fmt re_match [] properties path_prefix = Inr []"
| "validate_fields fmt re_match ((field_name, v) # rest) properties path_prefix =
     seq_errs
       (let field_path = path_prefix @ ''.'' @ field_name in
        case py_in_json (JStr field_name) properties of
          Inl e \<Rightarrow> Inl e
        | Inr known \<Rightarrow>
            if \<not> known then Inr []
            else
              (case properties of
                 JObj props \<Rightarrow>
                   (case dict_get props field_name JNull of
                      JObj ps \<Rightarrow>
                        if v = JNull then Inr (null_check fmt ps field_path)
                        else
                          seq_errs (enum_check fmt ps v field_path)
                         (seq_errs (type_check fmt ps v field_path)
                         (seq_errs
                            (if dict_get ps ''type'' JNull = JStr ''object'' \<and> is_object v
                             then validate_against_schema fmt re_match v (JObj ps) field_path
                             else Inr [])
                         (seq_errs
                            (if dict_get ps ''type'' JNull = JStr ''array''
                             then (case v of
                                     JArr xs \<Rightarrow>
                                       (let items_schema = dict_get ps ''items'' JNull
                                        in if json_truthy items_schema
                                           then validate_items fmt re_match 0 xs items_schema
                                                  field_path
                                           else Inr [])
                                   | _ \<Rightarrow> Inr [])
                             else Inr [])
                         (seq_errs (string_checks fmt re_match ps v field_path)
                                   (numeric_checks fmt ps v field_path)))))
                    | _ \<Rightarrow> Inl AttributeError)
               | _ \<Rightarrow> Inl TypeError))
       (validate_fields fmt re_match rest properties path_prefix)"
| "validate_items fmt re_match idx [] items_schema field_path = Inr []"
| "validate_items fmt re_match idx (item # rest) items_schema field_path =
     seq_errs
       (let item_path = field_path @ ''['' @ py_str_int (int idx) @ '']'' in
        case items_schema of
          JObj items \<Rightarrow>
            seq_errs
              (if dict_get items ''type'' JNull = JStr ''object'' \<and> is_object item
               then validate_against_schema fmt re_match item items_schema item_path
               else item_type_check fmt items item item_path)
              (item_enum_check fmt items item item_path)
        | _ \<Rightarrow> Inl AttributeError)
       (validate_items fmt re_match (Suc idx) rest items_schema field_path)"

subsection \<open>The extraction microloop\<close>









section \<open>Context budget (context_budget.py)\<close>

datatype Priority = LOW | MEDIUM | HIGH | CRITICAL

definition priority_value :: "Priority \<Rightarrow> int" where
  "priority_value p = (case p of LOW \<Rightarrow> 1 | MEDIUM \<Rightarrow> 2 | HIGH \<Rightarrow> 3 | CRITICAL \<Rightarrow> 4)"

record ContentItem =
  key :: string
  content :: string
  priority :: Priority
  tokens :: int
  truncated :: bool
  dropped :: bool
  original_tokens :: int

text \<open>\<open>__post_init__\<close>: an original token count of 0 is taken from the token count.\<close>

definition content_item :: "ContentItem \<Rightarrow> ContentItem" where
  "content_item item =
     (if original_tokens item = 0 then item\<lparr>original_tokens := tokens item\<rparr> else item)"

text \<open>
  The enforcer with its budget and token counter. Three computations of the
  source are done in floating point; they are parameters of the model:
  \<open>estimate_chars a n t\<close> is \<open>int(a * (n / max(t, 1)))\<close>,
  \<open>beyond_80_percent s e\<close> is \<open>s > e * 0.8\<close>, and \<open>tenth_of_budget r b\<close> is
  \<open>r >= b * 0.1\<close>.
\<close>

record Enforcer =
  budget :: int
  token_counter :: "string \<Rightarrow> int"
  estimate_chars :: "int \<Rightarrow> int \<Rightarrow> int \<Rightarrow> int"
  beyond_80_percent :: "int \<Rightarrow> int \<Rightarrow> bool"
  tenth_of_budget :: "int \<Rightarrow> int \<Rightarrow> bool"

definition count_tokens :: "Enforcer \<Rightarrow> string \<Rightarrow> int" where
  "count_tokens enf s = (if s = [] then 0 else token_counter enf s)"

text \<open>The slice \<open>xs[:n]\<close> and \<open>s.rfind(c)\<close>.\<close>

definition py_slice_to :: "int \<Rightarrow> 'a list \<Rightarrow> 'a list" where
  "py_slice_to n xs =
     (if n < 0 then take (nat (int (length xs) + n)) xs else take (nat n) xs)"

fun rfind_acc :: "char \<Rightarrow> string \<Rightarrow> int \<Rightarrow> int \<Rightarrow> int" where
  "rfind_acc c [] i best = best"
| "rfind_acc c (x # xs) i best = rfind_acc c xs (i + 1) (if x = c then i else best)"

definition py_rfind :: "char \<Rightarrow> string \<Rightarrow> int" where
  "py_rfind c s = rfind_acc c s 0 (- 1)"

definition truncation_marker :: string where
  "truncation_marker = [CHR 0x0A, CHR 0x0A] @ ''... [TRUNCATED]''"

definition truncate_item :: "Enforcer \<Rightarrow> ContentItem \<Rightarrow> int \<Rightarrow> ContentItem" where
  "truncate_item enf item max_tokens =
     (if max_tokens \<le> 0 then
        content_item
          \<lparr>key = key item, content = ''[TRUNCATED: No budget remaining]'',
           priority = priority item, tokens = 10, truncated = True, dropped = False,
           original_tokens = original_tokens item\<rparr>
      else
        let marker_tokens = count_tokens enf truncation_marker;
            available_tokens = max_tokens - marker_tokens
        in if available_tokens \<le> 0 then
             content_item
               \<lparr>key = key item, content = ''[TRUNCATED]'', priority = priority item,
                tokens = 5, truncated = True, dropped = False,
                original_tokens = original_tokens item\<rparr>
           else
             let estimated_chars =
                   estimate_chars enf available_tokens (int (length (content item)))
                     (tokens item);
                 head = py_slice_to estimated_chars (content item);
                 last_space = py_rfind CHR '' '' head;
                 cut = (if beyond_80_percent enf last_space estimated_chars
                        then py_slice_to last_space head else head);
                 truncated_content = cut @ truncation_marker;
                 new_tokens = count_tokens enf truncated_content
             in content_item
                  \<lparr>key = key item, content = truncated_content, priority = priority item,
                   tokens = new_tokens, truncated = True, dropped = False,
                   original_tokens = original_tokens item\<rparr>)"

text \<open>
  The loop of \<open>_load_by_priority\<close> over the sorted items, with the lists of
  loaded and dropped items and the tokens used so far.
\<close>

fun load_loop ::
  "Enforcer \<Rightarrow> ContentItem list \<Rightarrow> ContentItem list \<Rightarrow> ContentItem list \<Rightarrow> int
   \<Rightarrow> ContentItem list \<times> ContentItem list" where
  "load_loop enf [] loaded dropped_items used_tokens = (loaded, dropped_items)"
| "load_loop enf (item # rest) loaded dropped_items used_tokens =
     (let remaining = budget enf - used_tokens in
      case priority item of
        CRITICAL \<Rightarrow>
          load_loop enf rest (loaded @ [item]) dropped_items (used_tokens + tokens item)
      | HIGH \<Rightarrow>
          if tokens item \<le> remaining then
            load_loop enf rest (loaded @ [item]) dropped_items (used_tokens + tokens item)
          else if remaining \<ge> 100 then
            (let cut = truncate_item enf item remaining
             in load_loop enf rest (loaded @ [cut]) dropped_items (used_tokens + tokens cut))
          else
            load_loop enf rest loaded (dropped_items @ [item\<lparr>dropped := True\<rparr>]) used_tokens
      | MEDIUM \<Rightarrow>
          if tokens item \<le> remaining then
            load_loop enf rest (loaded @ [item]) dropped_items (used_tokens + tokens item)
          else
            load_loop enf rest loaded (dropped_items @ [item\<lparr>dropped := True\<rparr>]) used_tokens
      | LOW \<Rightarrow>
          if tokens item \<le> remaining \<and> tenth_of_budget enf remaining (budget enf) then
            load_loop enf rest (loaded @ [item]) dropped_items (used_tokens + tokens item)
          else
            load_loop enf rest loaded (dropped_items @ [item\<lparr>dropped := True\<rparr>]) used_tokens)"

text \<open>
  The items are sorted by descending priority and, within a priority, by their
  position in the input.
\<close>

definition sorted_items :: "ContentItem list \<Rightarrow> ContentItem list" where
  "sorted_items items =
     map snd (sort_key (\<lambda>x. (- priority_value (priority (snd x)), fst x))
                (enumerate 0 items))"

definition load_by_priority ::
  "Enforcer \<Rightarrow> ContentItem list \<Rightarrow> ContentItem list \<times> ContentItem list" where
  "load_by_priority enf items = load_loop enf (sorted_items items) [] [] 0"

record OverflowReport =
  report_requested :: int
  report_allowed :: int
  report_loaded :: "(string \<times> int \<times> int \<times> Priority \<times> bool) list"
  report_dropped :: "(string \<times> int \<times> Priority) list"

definition build_overflow_report ::
  "Enforcer \<Rightarrow> ContentItem list \<Rightarrow> ContentItem list \<Rightarrow> OverflowReport" where
  "build_overflow_report enf loaded dropped_items =
     \<lparr>report_requested = sum_list (map original_tokens (loaded @ dropped_items)),
      report_allowed = budget enf,
      report_loaded =
        map (\<lambda>item. (key item, tokens item, original_tokens item, priority item,
                      truncated item)) loaded,
      report_dropped =
        map (\<lambda>item. (key item, original_tokens item, priority item)) dropped_items\<rparr>"

record BudgetResult =
  loaded_items :: "ContentItem list"
  dropped_items :: "ContentItem list"
  total_tokens :: int
  result_budget :: int
  overflow :: bool
  overflow_report :: "OverflowReport option"

text \<open>The first loop of \<open>enforce\<close>: an item without a token count gets one.\<close>

definition with_tokens :: "Enforcer \<Rightarrow> ContentItem \<Rightarrow> ContentItem" where
  "with_tokens enf item =
     (if tokens item = 0
      then item\<lparr>tokens := count_tokens enf (content item),
                original_tokens := count_tokens enf (content item)\<rparr>
      else item)"

definition enforce :: "Enforcer \<Rightarrow> ContentItem list \<Rightarrow> BudgetResult" where
  "enforce enf items =
     (let counted = map (with_tokens enf) items;
          (loaded, dropped_list) = load_by_priority enf counted;
          total = sum_list (map tokens loaded);
          over = (dropped_list \<noteq> [] \<or> list_ex truncated loaded)
      in \<lparr>loaded_items = loaded, dropped_items = dropped_list, total_tokens = total,
          result_budget = budget enf, overflow = over,
          overflow_report =
            (if over then Some (build_overflow_report enf loaded dropped_list) else None)\<rparr>)"

text \<open>
  The three floating-point computations done exactly; the doubles agree
  wherever the quotient and the products are exact.
\<close>

definition exact_enforcer :: "int \<Rightarrow> (string \<Rightarrow> int) \<Rightarrow> Enforcer" where
  "exact_enforcer b counter =
     \<lparr>budget = b, token_counter = counter,
      estimate_chars = (\<lambda>a n t. (a * n) div max t 1),
      beyond_80_percent = (\<lambda>s e. 5 * s > 4 * e),
      tenth_of_budget = (\<lambda>r b. 10 * r \<ge> b)\<rparr>"

text \<open>A token counter for which spaces cost nothing and every other character one token.\<close>

definition count_non_spaces :: "string \<Rightarrow> int" where
  "count_non_spaces s = int (length (filter (\<lambda>c. c \<noteq> CHR '' '') s))"

section \<open>Theorems\<close>




subsection \<open>Stall tracker\<close>

lemma card_set_one_iff: "card (set ys) = Suc 0 \<longleftrightarrow> ys \<noteq> [] \<and> all_equal ys"
proof
  assume "card (set ys) = Suc 0"
  then obtain x where "set ys = {x}" by (auto simp: card_1_singleton_iff)
  then show "ys \<noteq> [] \<and> all_equal ys" by (auto simp: all_equal_def)
next
  assume a: "ys \<noteq> [] \<and> all_equal ys"
  then obtain x where x: "x \<in> set ys" by (cases ys) auto
  with a have "set ys = {x}" by (auto simp: all_equal_def)
  then show "card (set ys) = Suc 0" by simp
qed

lemma slice_last_n:
  "0 < k \<Longrightarrow> k \<le> int (length xs) \<Longrightarrow> py_slice_from (- k) xs = last_n (nat k) xs"
  by (simp add: py_slice_from_def last_n_def nat_diff_distrib')

lemma last_n_length: "n \<le> length xs \<Longrightarrow> length (last_n n xs) = n"
  by (simp add: last_n_def)

text \<open>
  C7 (as amended). For a tracker whose threshold is at least 1: \<open>is_stalled\<close> is
  true exactly when at least \<open>t\<close> signatures were recorded and the last \<open>t\<close> of
  them are all equal; \<open>get_velocity\<close> returns the number of distinct signatures
  among the last \<open>min(len, t)\<close> divided by that window length, and 1 for a history
  shorter than two signatures.
\<close>

theorem stall_tracker_positive_threshold:
  assumes "1 \<le> stall_threshold tr"
  shows "is_stalled tr = spec_is_stalled tr \<and> get_velocity tr = Inr (spec_velocity tr)"
proof -
  let ?xs = "error_signatures tr" and ?t = "stall_threshold tr"
  have s: "is_stalled tr = spec_is_stalled tr"
  proof (cases "int (length ?xs) < ?t")
    case True
    then show ?thesis by (simp add: is_stalled_def spec_is_stalled_def)
  next
    case False
    with assms have sl: "py_slice_from (- ?t) ?xs = last_n (nat ?t) ?xs"
      by (intro slice_last_n) auto
    from False assms have "length (last_n (nat ?t) ?xs) = nat ?t"
      by (intro last_n_length) auto
    with assms have ne: "last_n (nat ?t) ?xs \<noteq> []" by auto
    from False show ?thesis
      by (simp add: is_stalled_def spec_is_stalled_def sl card_set_one_iff ne)
  qed
  have v: "get_velocity tr = Inr (spec_velocity tr)"
  proof (cases "length ?xs < 2")
    case True
    then show ?thesis by (simp add: get_velocity_def spec_velocity_def)
  next
    case False
    define w where "w = min (int (length ?xs)) ?t"
    have w1: "1 \<le> w" "w \<le> int (length ?xs)" using False assms by (auto simp: w_def)
    have wn: "nat w = min (length ?xs) (nat ?t)" using assms by (auto simp: w_def)
    have sl: "py_slice_from (- w) ?xs = last_n (nat w) ?xs"
      using w1 by (intro slice_last_n) auto
    have len: "length (last_n (nat w) ?xs) = nat w"
      using w1 by (intro last_n_length) auto
    with w1 have pos: "last_n (nat w) ?xs \<noteq> []" by auto
    show ?thesis using False pos
      unfolding get_velocity_def spec_velocity_def
      by (simp add: Let_def w_def[symmetric] sl len wn[symmetric])
  qed
  from s v show ?thesis by simp
qed

theorem stall_tracker_positive_threshold_witness:
  "is_stalled \<lparr>error_signatures = [''a'', ''b'', ''b''], stall_threshold = 2\<rparr>
   \<and> spec_is_stalled \<lparr>error_signatures = [''a'', ''b'', ''b''], stall_threshold = 2\<rparr>
   \<and> get_velocity \<lparr>error_signatures = [''a'', ''b'', ''b''], stall_threshold = 2\<rparr>
       = Inr (1 / 2)"
proof -
  have "get_velocity \<lparr>error_signatures = [''a'', ''b'', ''b''], stall_threshold = 2\<rparr>
       = Inr (1 / 2)"
    by (simp add: get_velocity_def py_slice_from_def)
  moreover have "is_stalled \<lparr>error_signatures = [''a'', ''b'', ''b''], stall_threshold = 2\<rparr>"
    by (simp add: is_stalled_def py_slice_from_def)
  ultimately show ?thesis
    using stall_tracker_positive_threshold
      [of "\<lparr>error_signatures = [''a'', ''b'', ''b''], stall_threshold = 2\<rparr>"]
    by simp
qed

text \<open>
  With threshold 0 the slice \<open>xs[-0:]\<close> is the whole history, so two different
  signatures are "not stalled" although the last zero signatures are trivially
  all equal; with a negative threshold the velocity window can be empty and the
  division raises.
\<close>

theorem stall_tracker_threshold_counterexample:
  "is_stalled \<lparr>error_signatures = [''a'', ''b''], stall_threshold = 0\<rparr> = False
   \<and> spec_is_stalled \<lparr>error_signatures = [''a'', ''b''], stall_threshold = 0\<rparr> = True
   \<and> get_velocity \<lparr>error_signatures = [''a'', ''b''], stall_threshold = - 2\<rparr>
       = Inl ZeroDivisionError"
  by (simp add: is_stalled_def spec_is_stalled_def get_velocity_def py_slice_from_def
      last_n_def all_equal_def)

subsection \<open>Boundary scanner\<close>









subsection \<open>Normalized tool calls\<close>

lemma from_dict_to_dict:
  "from_dict now (to_dict c) =
     Some (c\<lparr>blocked_reason :=
               (if blocked c \<and> blocked_reason c \<noteq> Some [] then blocked_reason c else None),
             timestamp := (case timestamp c of None \<Rightarrow> Some now | Some t \<Rightarrow> Some t)\<rparr>)"
  by (cases c)
     (simp add: from_dict_def to_dict_def dict_get_def post_init_def opt_str_json_def
       as_str_def as_opt_str_def as_bool_def as_int_def as_dict_def
       split: option.splits)

text \<open>
  C9 (as amended). \<open>from_dict\<close> of \<open>to_dict\<close> gives back a tool call with the same
  \<open>tool_name\<close>, \<open>tool_input\<close>, \<open>tool_output\<close>, \<open>success\<close>, \<open>duration_ms\<close>,
  \<open>blocked\<close> and \<open>source\<close>, and the same \<open>timestamp\<close> when one is set (a missing
  one is filled from the clock). \<open>blocked_reason\<close> comes back unchanged when the
  call is blocked and the reason is not the empty string, and as \<open>None\<close>
  otherwise.
\<close>

theorem tool_call_roundtrip:
  "\<exists>c'. from_dict now (to_dict c) = Some c'
      \<and> tool_name c' = tool_name c \<and> tool_input c' = tool_input c
      \<and> tool_output c' = tool_output c \<and> success c' = success c
      \<and> duration_ms c' = duration_ms c \<and> blocked c' = blocked c
      \<and> source c' = source c
      \<and> timestamp c' = (case timestamp c of None \<Rightarrow> Some now | Some t \<Rightarrow> Some t)
      \<and> blocked_reason c' =
          (if blocked c \<and> blocked_reason c \<noteq> Some [] then blocked_reason c else None)"
  by (simp add: from_dict_to_dict)

theorem tool_call_roundtrip_witness:
  "from_dict ''2026-01-01T00:00:00Z''
     (to_dict \<lparr>tool_name = ''Bash'', tool_input = [(''command'', JStr ''ls'')],
               tool_output = Some ''ok'', success = True, duration_ms = 150,
               blocked = True, blocked_reason = Some ''policy'', source = ''sdk'',
               timestamp = Some ''2025-12-08T14:30:22Z''\<rparr>)
   = Some \<lparr>tool_name = ''Bash'', tool_input = [(''command'', JStr ''ls'')],
            tool_output = Some ''ok'', success = True, duration_ms = 150,
            blocked = True, blocked_reason = Some ''policy'', source = ''sdk'',
            timestamp = Some ''2025-12-08T14:30:22Z''\<rparr>"
  (is "from_dict ?n (to_dict ?c) = Some ?c")
proof -
  from tool_call_roundtrip [of ?n ?c] obtain c' where
    r: "from_dict ?n (to_dict ?c) = Some c'"
    and f: "tool_name c' = ''Bash''" "tool_input c' = [(''command'', JStr ''ls'')]"
      "tool_output c' = Some ''ok''" "success c' = True" "duration_ms c' = 150"
      "blocked c' = True" "source c' = ''sdk''"
      "timestamp c' = Some ''2025-12-08T14:30:22Z''"
      "blocked_reason c' = Some ''policy''"
    by auto
  from f have "c' = ?c" by (cases c') simp
  with r show ?thesis by simp
qed

text \<open>
  A call that is not blocked but carries a reason: \<open>to_dict\<close> writes
  \<open>blocked_reason\<close> only inside the branch for blocked calls, so the reason is
  lost on the way back.
\<close>

theorem tool_call_roundtrip_counterexample:
  "map_option blocked_reason
     (from_dict ''2026-01-01T00:00:00Z''
        (to_dict \<lparr>tool_name = ''Bash'', tool_input = [], tool_output = None,
                  success = True, duration_ms = 0, blocked = False,
                  blocked_reason = Some ''policy'', source = ''sdk'',
                  timestamp = Some ''2025-12-08T14:30:22Z''\<rparr>))
   = Some None"
  by (simp add: from_dict_def to_dict_def dict_get_def post_init_def opt_str_json_def
      as_str_def as_opt_str_def as_bool_def as_int_def as_dict_def)

subsection \<open>Utility flow candidates\<close>

text \<open>
  C4 (as amended). When a repository root is given and detection is triggered
  with a non-empty flow id, exactly one candidate is returned: its id is
  \<open>inject_flow:<id>\<close>, its action \<open>inject_flow\<close>, its target node the flow id
  itself, its source \<open>utility_flow_detector\<close>, its evidence pointers
  \<open>trigger:<type>\<close> followed by the \<open>key:value\<close> pairs of the evidence, and it is
  not a default. Whatever the inputs, no returned candidate is a default.
\<close>

theorem utility_candidate_shape:
  "(repo_root = Some repo
     \<and> detector repo (step_result_to_dict step_res) run_state git = tr
     \<and> triggered tr \<and> flow_id tr = Some fid \<and> fid \<noteq> []
    \<longrightarrow> get_utility_flow_candidates fmt strict detector step_res run_state git repo_root
        = Inr [\<lparr>candidate_id = ''inject_flow:'' @ fid, action = ''inject_flow'',
                 target_node = fid, candidate_reason = trigger_reason tr,
                 candidate_priority = trigger_priority tr,
                 candidate_source = ''utility_flow_detector'',
                 evidence_pointers =
                   (''trigger:'' @ trigger_type tr)
                   # map (\<lambda>(key, value). key @ '':'' @ fmt value) (evidence tr),
                 is_default = False\<rparr>])
   \<and> (\<forall>cs. get_utility_flow_candidates fmt strict detector step_res run_state git
              repo_root = Inr cs
          \<longrightarrow> list_all (\<lambda>c. \<not> is_default c) cs)"
  by (auto simp: get_utility_flow_candidates_def Let_def INJECT_PREFIX_def UTILITY_SOURCE_def
      split: option.splits if_splits)

theorem utility_candidate_shape_witness:
  "get_utility_flow_candidates (\<lambda>v::string. v) False
     (\<lambda>repo d st g. \<lparr>triggered = True, trigger_type = ''upstream_diverged'',
                      flow_id = Some ''reset'', trigger_reason = ''Branch diverged'',
                      trigger_priority = 80, evidence = [(''behind_count'', ''5'')]\<rparr>)
     (IsDict [(''status'', ''VERIFIED'')]) () (Some ()) (Some ''/repo'')
   = Inr [\<lparr>candidate_id = ''inject_flow:reset'', action = ''inject_flow'',
            target_node = ''reset'', candidate_reason = ''Branch diverged'', candidate_priority = 80,
            candidate_source = ''utility_flow_detector'',
            evidence_pointers = [''trigger:upstream_diverged'', ''behind_count:5''],
            is_default = False\<rparr>]"
  using utility_candidate_shape
    [of "Some ''/repo''" "''/repo''"
        "\<lambda>repo d st g. \<lparr>triggered = True, trigger_type = ''upstream_diverged'',
                      flow_id = Some ''reset'', trigger_reason = ''Branch diverged'',
                      trigger_priority = 80, evidence = [(''behind_count'', ''5'')]\<rparr>"
        "IsDict [(''status'', ''VERIFIED'')]" "()" "Some ()"
        "\<lparr>triggered = True, trigger_type = ''upstream_diverged'',
                      flow_id = Some ''reset'', trigger_reason = ''Branch diverged'',
                      trigger_priority = 80, evidence = [(''behind_count'', ''5'')]\<rparr>"
        "''reset''" "\<lambda>v::string. v" False]
  by simp

text \<open>
  The \<open>reset\<close> flow of the tests has the nodes \<open>diagnose\<close> and \<open>sync\<close>, the first
  being \<open>diagnose\<close>; the candidate generated for it targets \<open>reset\<close>.
\<close>

theorem utility_candidate_target_counterexample:
  "map_sum id (map target_node)
     (get_utility_flow_candidates (\<lambda>v::string. v) False
        (\<lambda>repo d st g. \<lparr>triggered = True, trigger_type = ''upstream_diverged'',
                         flow_id = Some ''reset'', trigger_reason = ''Branch diverged'',
                         trigger_priority = 80, evidence = [(''behind_count'', ''5'')]\<rparr>)
        (IsDict [(''status'', ''VERIFIED'')]) () (Some ()) (Some ''/repo''))
   = Inr [''reset'']
   \<and> first_node_id \<lparr>meta_flow_id = ''reset'', injection_trigger = ''upstream_diverged'',
                      node_ids = [''diagnose'', ''sync''], first_node_id = ''diagnose''\<rparr>
     \<noteq> ''reset''"
  by (simp add: get_utility_flow_candidates_def INJECT_PREFIX_def UTILITY_SOURCE_def)

subsection \<open>Replay of step_completed\<close>

text \<open>
  C1 (as amended). Applying a \<open>step_completed\<close> event that carries a step id adds
  the id to \<open>completed_nodes\<close>; when the payload has an envelope that parses, the
  envelope is stored under the id in \<open>handoff_envelopes\<close> (one that fails with
  \<open>KeyError\<close> or \<open>TypeError\<close> is skipped, any other exception leaves the reducer);
  and \<open>step_index\<close> becomes the payload's \<open>next_step_index\<close> when the payload has
  one and is left as it was otherwise.
\<close>

theorem apply_step_completed_effect:
  assumes "kind event = ''step_completed''"
    and "carried_step_id event = Some sid"
  shows "case parsed_envelope parse event of
           Some (Inl e) \<Rightarrow>
             if e = KeyError \<or> e = TypeError
             then apply_event others parse st event =
                    Inr (st\<lparr>state_timestamp := ts event,
                            completed_nodes := insert sid (completed_nodes st),
                            step_index := (case next_step_index (event_payload event) of
                                             Some n \<Rightarrow> n | None \<Rightarrow> step_index st)\<rparr>)
             else apply_event others parse st event = Inl e
         | Some (Inr env) \<Rightarrow>
             apply_event others parse st event =
               Inr (st\<lparr>state_timestamp := ts event,
                       completed_nodes := insert sid (completed_nodes st),
                       handoff_envelopes := (handoff_envelopes st)(sid \<mapsto> env),
                       step_index := (case next_step_index (event_payload event) of
                                        Some n \<Rightarrow> n | None \<Rightarrow> step_index st)\<rparr>)
         | None \<Rightarrow>
             apply_event others parse st event =
               Inr (st\<lparr>state_timestamp := ts event,
                       completed_nodes := insert sid (completed_nodes st),
                       step_index := (case next_step_index (event_payload event) of
                                        Some n \<Rightarrow> n | None \<Rightarrow> step_index st)\<rparr>)"
proof -
  define pl where "pl = event_payload event"
  from assms(2) have sid: "str_or (event_step_id event) (payload_step_id pl) = Some sid"
    "sid \<noteq> []"
    by (auto simp: carried_step_id_def pl_def event_payload_def split: option.splits if_splits)
  have ev: "apply_event others parse st event
      = apply_step_completed parse (st\<lparr>state_timestamp := ts event\<rparr>) event pl"
    using assms(1) by (simp add: apply_event_def pl_def event_payload_def Let_def)
  show ?thesis
    unfolding ev parsed_envelope_def pl_def [symmetric]
    using sid
    by (cases "envelope pl"; cases "next_step_index pl")
       (auto simp: apply_step_completed_def mark_node_completed_def Let_def
          split: sum.splits py_error.splits)
qed

theorem apply_step_completed_effect_witness:
  "apply_event (\<lambda>k st e p. Inr st) (\<lambda>d. Inr d)
     \<lparr>run_id = ''run-1'', flow_key = ''build'', run_status = ''running'',
      current_step_id = Some ''1'', step_index = 0, completed_nodes = {},
      handoff_envelopes = Map.empty, state_timestamp = ''t0''\<rparr>
     \<lparr>event_run_id = ''run-1'', ts = ''t1'', kind = ''step_completed'',
      event_flow_key = ''build'', event_step_id = Some ''1'',
      payload = Some \<lparr>payload_step_id = None,
                       envelope = Some (JObj [(''summary'', JStr ''done'')]),
                       next_step_index = Some 1\<rparr>\<rparr>
   = Inr \<lparr>run_id = ''run-1'', flow_key = ''build'', run_status = ''running'',
          current_step_id = Some ''1'', step_index = 1, completed_nodes = {''1''},
          handoff_envelopes = [''1'' \<mapsto> JObj [(''summary'', JStr ''done'')]],
          state_timestamp = ''t1''\<rparr>"
  using apply_step_completed_effect
    [where event = "\<lparr>event_run_id = ''run-1'', ts = ''t1'', kind = ''step_completed'',
      event_flow_key = ''build'', event_step_id = Some ''1'',
      payload = Some \<lparr>payload_step_id = None,
                       envelope = Some (JObj [(''summary'', JStr ''done'')]),
                       next_step_index = Some 1\<rparr>\<rparr>"
       and sid = "''1''" and parse = "\<lambda>d. Inr d" and others = "\<lambda>k st e p. Inr st"
       and st = "\<lparr>run_id = ''run-1'', flow_key = ''build'', run_status = ''running'',
      current_step_id = Some ''1'', step_index = 0, completed_nodes = {},
      handoff_envelopes = Map.empty, state_timestamp = ''t0''\<rparr>"]
  by (simp add: carried_step_id_def parsed_envelope_def event_payload_def str_or_def)

text \<open>
  A \<open>step_completed\<close> event for step 1 whose payload has no \<open>next_step_index\<close>:
  the step is recorded as completed and \<open>step_index\<close> stays at 0.
\<close>

theorem apply_step_completed_index_counterexample:
  "apply_event (\<lambda>k st e p. Inr st) (\<lambda>d. Inr d)
     \<lparr>run_id = ''run-1'', flow_key = ''build'', run_status = ''running'',
      current_step_id = Some ''1'', step_index = 0, completed_nodes = {},
      handoff_envelopes = Map.empty, state_timestamp = ''t0''\<rparr>
     \<lparr>event_run_id = ''run-1'', ts = ''t1'', kind = ''step_completed'',
      event_flow_key = ''build'', event_step_id = Some ''1'',
      payload = Some \<lparr>payload_step_id = None, envelope = None, next_step_index = None\<rparr>\<rparr>
   = Inr \<lparr>run_id = ''run-1'', flow_key = ''build'', run_status = ''running'',
          current_step_id = Some ''1'', step_index = 0, completed_nodes = {''1''},
          handoff_envelopes = (Map.empty :: string \<rightharpoonup> json),
          state_timestamp = ''t1''\<rparr>"
  by (simp add: apply_event_def apply_step_completed_def mark_node_completed_def str_or_def)

subsection \<open>Resume points\<close>










subsection \<open>Extraction of JSON from text\<close>

lemma well_shaped_simps [simp]:
  "well_shaped (Some (JObj kvs), None)" "well_shaped (None, Some m)"
  by (simp_all add: well_shaped_def is_object_def)

lemma first_object_is_object: "first_object loads cs = Some v \<Longrightarrow> is_object v"
proof (induction cs)
  case Nil
  then show ?case by simp
next
  case (Cons c cs)
  show ?case
  proof (cases "loads c")
    case (Inl e)
    with Cons show ?thesis by simp
  next
    case (Inr d)
    with Cons show ?thesis by (cases d) (auto simp: is_object_def)
  qed
qed

lemma strategy4_shape: "well_shaped (strategy4 loads body)"
  by (simp add: strategy4_def split: sum.split json.split prod.split)

lemma strategy3_shape: "well_shaped (strategy3 loads body)"
proof (cases "first_object loads (find_json_candidates body)")
  case None
  then show ?thesis by (simp add: strategy3_def strategy4_shape)
next
  case (Some v)
  with first_object_is_object [OF Some] show ?thesis
    by (simp add: strategy3_def well_shaped_def)
qed

lemma strategy2_shape: "well_shaped (strategy2 loads body)"
  by (simp add: strategy2_def strategy3_shape split: option.split sum.split json.split)

lemma extract_shape: "well_shaped (extract_json_from_text loads raw)"
  by (simp add: extract_json_from_text_def Let_def strategy2_shape
      split: option.split sum.split json.split)

lemma first_object_none:
  "\<forall>s \<in> set cs. \<forall>kvs. loads s \<noteq> Inr (JObj kvs) \<Longrightarrow> first_object loads cs = None"
proof (induction cs)
  case Nil
  then show ?case by simp
next
  case (Cons c cs)
  then have "first_object loads cs = None" by simp
  moreover from Cons.prems have "\<forall>kvs. loads c \<noteq> Inr (JObj kvs)" by simp
  ultimately show ?case by (simp split: sum.split json.split)
qed

lemma array_case:
  assumes "py_strip raw = body" "starts_with ''['' body"
    and "loads body = Inr (JArr xs)"
    and "\<forall>s \<in> set (find_json_candidates body). \<forall>kvs. loads s \<noteq> Inr (JObj kvs)"
    and "\<forall>s. fence_body ''```json'' body = Some s \<longrightarrow> isl (loads s)"
    and "\<forall>s. fence_body ''```'' body = Some s \<longrightarrow> (\<forall>kvs. loads s \<noteq> Inr (JObj kvs))"
  shows "extract_json_from_text loads raw = (None, Some ''Expected JSON object, got list'')"
proof -
  from assms(2) have ne: "body \<noteq> []" by (cases body) auto
  with assms(1) have rne: "raw \<noteq> []" "py_strip raw \<noteq> []" by (auto simp: py_strip_def)
  have s4: "strategy4 loads body = (None, Some ''Expected JSON object, got list'')"
    using assms(2,3) by (simp add: strategy4_def type_name_def)
  have s3: "strategy3 loads body = strategy4 loads body"
    using first_object_none [OF assms(4)] by (simp add: strategy3_def)
  have s2: "strategy2 loads body = strategy3 loads body"
  proof (cases "fence_body ''```'' body")
    case None
    then show ?thesis by (simp add: strategy2_def)
  next
    case (Some s)
    with assms(6) have "\<forall>kvs. loads s \<noteq> Inr (JObj kvs)" by simp
    with Some show ?thesis by (simp add: strategy2_def split: sum.split json.split)
  qed
  have "extract_json_from_text loads raw = strategy2 loads body"
  proof (cases "fence_body ''```json'' body")
    case None
    with rne assms(1) show ?thesis by (simp add: extract_json_from_text_def)
  next
    case (Some s)
    with assms(5) obtain e where "loads s = Inl e" by (cases "loads s") auto
    with Some rne assms(1) show ?thesis by (simp add: extract_json_from_text_def)
  qed
  with s2 s3 s4 show ?thesis by simp
qed

text \<open>
  C10. \<open>extract_json_from_text\<close> returns a parsed value only when it is a JSON
  object, and then without a message; when it returns no value it returns a
  message. When the stripped text begins with \<open>[\<close> and parses to an array, and
  neither a fenced block nor a brace-balanced candidate of the text parses to an
  object (a fenced \<open>json\<close> block not parsing at all), the result is no value
  together with the message \<open>Expected JSON object, got list\<close>.
\<close>

theorem extract_json_only_objects:
  "well_shaped (extract_json_from_text loads raw)
   \<and> (py_strip raw = body \<and> starts_with ''['' body \<and> loads body = Inr (JArr xs)
        \<and> (\<forall>s \<in> set (find_json_candidates body). \<forall>kvs. loads s \<noteq> Inr (JObj kvs))
        \<and> (\<forall>s. fence_body ''```json'' body = Some s \<longrightarrow> isl (loads s))
        \<and> (\<forall>s. fence_body ''```'' body = Some s \<longrightarrow> (\<forall>kvs. loads s \<noteq> Inr (JObj kvs)))
       \<longrightarrow> extract_json_from_text loads raw
             = (None, Some ''Expected JSON object, got list''))"
  using extract_shape [of loads raw] array_case [of raw body loads xs] by blast

theorem extract_json_only_objects_witness:
  "extract_json_from_text
     (\<lambda>s. if s = ''[1, 2]'' then Inr (JArr [JInt 1, JInt 2])
          else Inl (''Expecting value'', 0))
     '' [1, 2]  ''
   = (None, Some ''Expected JSON object, got list'')"
  (is "extract_json_from_text ?L ?R = _")
proof -
  have s: "py_strip ?R = ''[1, 2]''" by code_simp
  have c: "find_json_candidates ''[1, 2]'' = []" by simp
  have f1: "fence_body ''```json'' ''[1, 2]'' = None" by (simp add: fence_body_def)
  have f2: "fence_body ''```'' ''[1, 2]'' = None" by (simp add: fence_body_def)
  from extract_json_only_objects [of ?L ?R "''[1, 2]''" "[JInt 1, JInt 2]"]
  show ?thesis by (simp add: s c f1 f2)
qed

subsection \<open>Validation and the extraction microloop\<close>
















subsection \<open>Context budget\<close>

lemma content_item_fields:
  "priority (content_item item) = priority item"
  "truncated (content_item item) = truncated item"
  "tokens (content_item item) = tokens item"
  by (simp_all add: content_item_def)

lemma truncate_item_fields:
  "priority (truncate_item enf item m) = priority item"
  "truncated (truncate_item enf item m)"
  by (simp_all add: truncate_item_def Let_def content_item_fields)

lemma load_loop_keeps_loaded:
  "set loaded \<subseteq> set (fst (load_loop enf xs loaded dropped_list used))"
proof (induction xs arbitrary: loaded dropped_list used)
  case Nil
  then show ?case by simp
next
  case (Cons x xs)
  have step: "\<And>y d u. set loaded \<subseteq> set (fst (load_loop enf xs (loaded @ [y]) d u))"
    using Cons.IH by fastforce
  show ?case
    by (cases "priority x") (auto simp: Let_def dest: subsetD [OF step] subsetD [OF Cons.IH])
qed

lemma load_loop_critical:
  "x \<in> set xs \<Longrightarrow> priority x = CRITICAL \<Longrightarrow>
   x \<in> set (fst (load_loop enf xs loaded dropped_list used))"
proof (induction xs arbitrary: loaded dropped_list used)
  case Nil
  then show ?case by simp
next
  case (Cons y ys)
  show ?case
  proof (cases "x = y")
    case True
    have "x \<in> set (loaded @ [x])" by simp
    then have "x \<in> set (fst (load_loop enf ys (loaded @ [x]) dropped_list (used + tokens x)))"
      using load_loop_keeps_loaded by blast
    with True Cons.prems(2) show ?thesis by (simp add: Let_def)
  next
    case False
    with Cons.prems have "x \<in> set ys" by simp
    from Cons.IH [OF this Cons.prems(2)] show ?thesis
      by (cases "priority y") (simp_all add: Let_def)
  qed
qed

lemma set_sorted_items: "set (sorted_items items) = set items"
proof -
  have "set (sorted_items items) = set (map snd (enumerate 0 items))"
    unfolding sorted_items_def by (simp only: set_map set_sort)
  also have "\<dots> = set items" by (simp only: map_snd_enumerate)
  finally show ?thesis .
qed

text \<open>
  Whatever the budget and the token counter, every \<open>CRITICAL\<close> item of the input
  is among the loaded items of the result (with its token count filled in).
\<close>

lemma enforce_loads_critical:
  assumes "item \<in> set items" "priority item = CRITICAL"
  shows "with_tokens enf item \<in> set (loaded_items (enforce enf items))"
proof -
  let ?c = "map (with_tokens enf) items"
  have "with_tokens enf item \<in> set (sorted_items ?c)"
    using assms(1) by (simp add: set_sorted_items)
  moreover have "priority (with_tokens enf item) = CRITICAL"
    using assms(2) by (simp add: with_tokens_def)
  ultimately have "with_tokens enf item \<in> set (fst (load_by_priority enf ?c))"
    unfolding load_by_priority_def by (rule load_loop_critical)
  moreover obtain l d where ld: "load_by_priority enf ?c = (l, d)"
    by (cases "load_by_priority enf ?c")
  ultimately show ?thesis
    by (simp add: enforce_def Let_def)
qed

text \<open>
  C3, at the input where the code departs from the claim. The budget is 110
  tokens and the only item is of priority \<open>HIGH\<close>: 120 letters followed by 120
  spaces, 120 tokens for a counter that counts the characters other than
  spaces. It does not fit, 110 tokens remain, and it is truncated: the estimate
  of 2 characters per token keeps all 120 letters, and the truncated item
  counts 136 tokens. The result holds no \<open>CRITICAL\<close> item and its total exceeds
  the budget.
\<close>

theorem enforce_truncation_overshoot:
  "total_tokens
     (enforce (exact_enforcer 110 count_non_spaces)
        [\<lparr>key = ''previous_output'',
          content = replicate 120 CHR ''x'' @ replicate 120 CHR '' '',
          priority = HIGH, tokens = 0, truncated = False, dropped = False,
          original_tokens = 0\<rparr>]) = 136
   \<and> map priority
       (loaded_items
          (enforce (exact_enforcer 110 count_non_spaces)
             [\<lparr>key = ''previous_output'',
               content = replicate 120 CHR ''x'' @ replicate 120 CHR '' '',
               priority = HIGH, tokens = 0, truncated = False, dropped = False,
               original_tokens = 0\<rparr>])) = [HIGH]
   \<and> result_budget
       (enforce (exact_enforcer 110 count_non_spaces)
          [\<lparr>key = ''previous_output'',
            content = replicate 120 CHR ''x'' @ replicate 120 CHR '' '',
            priority = HIGH, tokens = 0, truncated = False, dropped = False,
            original_tokens = 0\<rparr>]) = 110"
  by code_simp

theorem enforce_truncation_overshoot_witness:
  "result_budget
     (enforce (exact_enforcer 110 count_non_spaces)
        [\<lparr>key = ''previous_output'',
          content = replicate 120 CHR ''x'' @ replicate 120 CHR '' '',
          priority = HIGH, tokens = 0, truncated = False, dropped = False,
          original_tokens = 0\<rparr>])
   < total_tokens
       (enforce (exact_enforcer 110 count_non_spaces)
          [\<lparr>key = ''previous_output'',
            content = replicate 120 CHR ''x'' @ replicate 120 CHR '' '',
            priority = HIGH, tokens = 0, truncated = False, dropped = False,
            original_tokens = 0\<rparr>])
   \<and> \<not> list_ex (\<lambda>item. priority item = CRITICAL)
       (loaded_items
          (enforce (exact_enforcer 110 count_non_spaces)
             [\<lparr>key = ''previous_output'',
               content = replicate 120 CHR ''x'' @ replicate 120 CHR '' '',
               priority = HIGH, tokens = 0, truncated = False, dropped = False,
               original_tokens = 0\<rparr>]))"
  (is "result_budget ?r < total_tokens ?r \<and> \<not> list_ex ?c (loaded_items ?r)")
proof -
  from enforce_truncation_overshoot have t: "total_tokens ?r = 136"
    and p: "map priority (loaded_items ?r) = [HIGH]" and b: "result_budget ?r = 110"
    by blast+
  from p have "\<not> list_ex ?c (loaded_items ?r)"
    by (cases "loaded_items ?r") (auto simp: list_ex_iff)
  with t b show ?thesis by simp
qed

end
